theory Spec2Isabelle
  imports Complex_Main "HOL-Library.AList"
begin

section \<open>Python strings\<close>

text \<open>
  Strings are lists of 8-bit characters.  Case mapping is modelled on the ASCII letters
  (the role names and file extensions the code compares against are ASCII); whitespace is
  what \<^verbatim>\<open>str.isspace\<close> accepts below code point 256.
\<close>

definition whitespace :: "char list" where
  "whitespace = [CHR 0x09, CHR 0x0A, CHR 0x0B, CHR 0x0C, CHR 0x0D, CHR 0x1C, CHR 0x1D,
                 CHR 0x1E, CHR 0x1F, CHR 0x20, CHR 0x85, CHR 0xA0]"

definition isspace :: "char \<Rightarrow> bool" where
  "isspace c = (c \<in> set whitespace)"

definition str_strip :: "string \<Rightarrow> string" where
  "str_strip s = rev (dropWhile isspace (rev (dropWhile isspace s)))"

definition str_rstrip :: "char \<Rightarrow> string \<Rightarrow> string" where
  "str_rstrip c s = rev (dropWhile (\<lambda>x. x = c) (rev s))"

definition upper_char :: "char \<Rightarrow> char" where
  "upper_char c =
     (case map_of (zip ''abcdefghijklmnopqrstuvwxyz'' ''ABCDEFGHIJKLMNOPQRSTUVWXYZ'') c of
        Some u \<Rightarrow> u | None \<Rightarrow> c)"

definition lower_char :: "char \<Rightarrow> char" where
  "lower_char c =
     (case map_of (zip ''ABCDEFGHIJKLMNOPQRSTUVWXYZ'' ''abcdefghijklmnopqrstuvwxyz'') c of
        Some l \<Rightarrow> l | None \<Rightarrow> c)"

definition str_upper :: "string \<Rightarrow> string" where
  "str_upper s = map upper_char s"

definition str_lower :: "string \<Rightarrow> string" where
  "str_lower s = map lower_char s"

fun str_join :: "string \<Rightarrow> string list \<Rightarrow> string" where
  "str_join sep [] = []"
| "str_join sep [x] = x"
| "str_join sep (x # y # ys) = x @ sep @ str_join sep (y # ys)"

definition startswith :: "string \<Rightarrow> string \<Rightarrow> bool" where
  "startswith s p = (take (length p) s = p)"

fun str_nat :: "nat \<Rightarrow> string" where
  "str_nat n = (if n < 10 then [''0123456789'' ! n]
                else str_nat (n div 10) @ [''0123456789'' ! (n mod 10)])"

declare str_nat.simps [simp del]

definition str_int :: "int \<Rightarrow> string" where
  "str_int i = (if i < 0 then ''-'' @ str_nat (nat (- i)) else str_nat (nat i))"

text \<open>The truth value of \<^verbatim>\<open>x or default\<close> for an optional string.\<close>

definition str_or :: "string option \<Rightarrow> string \<Rightarrow> string" where
  "str_or x d = (case x of None \<Rightarrow> d | Some s \<Rightarrow> if s = [] then d else s)"

section \<open>Exceptions (app/errors.py and the built-in ones the code meets)\<close>

datatype exn_class =
    OllamaUnavailable
  | OllamaModelMissing
  | OllamaRequestFailed
  | EmbeddingModelError
  | TesseractError
  | VectorDbError
  | ValueError
  | HTTPException nat
  | OtherException string

text \<open>An exception value: its class and \<^verbatim>\<open>str(exc)\<close>.\<close>

datatype exn = Exn (exn_kind: exn_class) (exn_str: string)

text \<open>The subclasses of \<^verbatim>\<open>BackendError\<close> declared in app/errors.py.\<close>

definition is_BackendError :: "exn_class \<Rightarrow> bool" where
  "is_BackendError k = (k \<in> {OllamaUnavailable, OllamaModelMissing, OllamaRequestFailed,
                               EmbeddingModelError, TesseractError, VectorDbError})"

section \<open>Data model\<close>

datatype mval = MStr string | MInt int

type_synonym metadata = "(string \<times> mval) list"

record document =
  doc_text :: string
  doc_metadata :: metadata

record chunk =
  chunk_text :: string
  chunk_metadata :: metadata

record stored =
  stored_id :: string
  stored_text :: string
  stored_metadata :: metadata
  stored_embedding :: "real list"

record query_result =
  documents :: "string list list option"
  metadatas :: "metadata option list list option"
  distances :: "real option list list option"

record source =
  source_file :: "mval option"
  chunk_index :: "mval option"
  file_type :: "mval option"
  score :: "real option"

record rag_result =
  answer :: string
  sources :: "source list"

record IngestFileResult =
  res_filename :: string
  res_file_type :: "string option"
  chunks_added :: nat
  error :: "string option"

record IngestResponse =
  results :: "IngestFileResult list"
  total_chunks :: nat

record UploadFile =
  up_filename :: "string option"
  up_content :: string

type_synonym history_item = "(string \<times> string) list"

text \<open>\<^verbatim>\<open>d.get(k, default)\<close> on a dictionary kept as an association list.\<close>

definition dict_get :: "('k \<times> 'v) list \<Rightarrow> 'k \<Rightarrow> 'v \<Rightarrow> 'v" where
  "dict_get d k dflt = (case map_of d k of None \<Rightarrow> dflt | Some v \<Rightarrow> v)"

text \<open>How an f-string renders an optional metadata value.\<close>

fun fmt :: "mval option \<Rightarrow> string" where
  "fmt None = ''None''"
| "fmt (Some (MStr s)) = s"
| "fmt (Some (MInt i)) = str_int i"

section \<open>Settings (app/config.py)\<close>

record settings =
  uploads_path :: string
  chroma_db_path :: string
  chunk_size :: int
  chunk_overlap :: int
  llm_provider :: string
  ollama_base_url :: string
  ollama_model :: string
  ollama_temperature :: real
  ollama_max_tokens :: int
  ollama_timeout_seconds :: int
  health_timeout_seconds :: int
  ocr_timeout_seconds :: int
  top_k :: int

section \<open>The outside world\<close>

text \<open>
  Every call that leaves the program (file system, OCR, embedding model, vector store,
  HTTP, language model) is an external call.  The program state records the calls made so
  far; the environment decides, for the call made at position \<open>t\<close> of that record, whether
  it raises and what it returns.
\<close>

datatype ext_call =
    Mkdir_uploads
  | Mkdir_chroma_db
  | Rmtree_chroma_db
  | Upload_read
  | Write_bytes
  | Read_text
  | PdfReader_open
  | Image_to_string
  | SentenceTransformer_load
  | Model_encode
  | PersistentClient
  | Get_or_create_collection
  | Collection_add
  | Collection_get
  | Collection_count
  | Collection_query
  | Requests_get
  | Requests_post
  | HF_from_pretrained
  | HF_generate

datatype llm_client = OllamaClient | HuggingFaceClient

record world =
  EMBEDDER :: bool
  CLIENT :: bool
  COLLECTION :: bool
  LLM_CLIENT :: "llm_client option"
  chroma_db :: "stored list option"
  trace :: "ext_call list"

datatype http_outcome =
    Raised_Timeout string
  | Raised_other string
  | Response nat string

datatype ocr_outcome = Ocr_text "string option" | Ocr_timeout | Ocr_raised

record pdf_reader =
  is_encrypted :: bool
  decrypt_raises :: bool
  pages :: "string option list option"

record payload =
  p_model :: string
  p_prompt :: string
  p_temperature :: real
  p_max_tokens :: int
  p_stream :: bool

record env =
  cfg :: settings
  fault :: "ext_call \<Rightarrow> nat \<Rightarrow> exn option"
  resolve :: "string \<Rightarrow> string"
  read_text :: "nat \<Rightarrow> string \<Rightarrow> exn + string"
  pdf_open :: "nat \<Rightarrow> string \<Rightarrow> pdf_reader option"
  pytesseract_installed :: bool
  image_to_string :: "nat \<Rightarrow> string \<Rightarrow> ocr_outcome"
  text_splitter :: "string \<Rightarrow> string list"
  encode :: "nat \<Rightarrow> string list \<Rightarrow> exn + real list list"
  uuid4 :: "nat \<Rightarrow> nat \<Rightarrow> string"
  collection_query :: "nat \<Rightarrow> stored list \<Rightarrow> string \<Rightarrow> int \<Rightarrow> exn + query_result"
  requests_get :: "nat \<Rightarrow> string \<Rightarrow> http_outcome"
  requests_post :: "nat \<Rightarrow> string \<Rightarrow> payload \<Rightarrow> http_outcome"
  response_models :: "nat \<Rightarrow> string \<Rightarrow> exn + string option list"
  json_answer :: "string \<Rightarrow> (string option \<times> string option) option"
  hf_generate :: "nat \<Rightarrow> string \<Rightarrow> exn + string"

subsection \<open>Sequencing, raising and catching\<close>

type_synonym 'a io = "world \<Rightarrow> (exn + 'a) \<times> world"

definition ret :: "'a \<Rightarrow> 'a io" where
  "ret x = (\<lambda>w. (Inr x, w))"

definition raise :: "exn \<Rightarrow> 'a io" where
  "raise e = (\<lambda>w. (Inl e, w))"

definition io_bind :: "'a io \<Rightarrow> ('a \<Rightarrow> 'b io) \<Rightarrow> 'b io" where
  "io_bind m f = (\<lambda>w. case m w of (Inl e, w') \<Rightarrow> (Inl e, w') | (Inr x, w') \<Rightarrow> f x w')"

definition catch :: "'a io \<Rightarrow> (exn \<Rightarrow> 'a io) \<Rightarrow> 'a io" where
  "catch m h = (\<lambda>w. case m w of (Inl e, w') \<Rightarrow> h e w' | (Inr x, w') \<Rightarrow> (Inr x, w'))"

definition modify :: "(world \<Rightarrow> world) \<Rightarrow> unit io" where
  "modify f = (\<lambda>w. (Inr (), f w))"

definition gets :: "(world \<Rightarrow> 'a) \<Rightarrow> 'a io" where
  "gets f = (\<lambda>w. (Inr (f w), w))"

definition lift_result :: "exn + 'a \<Rightarrow> 'a io" where
  "lift_result r = (\<lambda>w. (r, w))"

text \<open>An external call whose value the environment supplies.\<close>

definition ext_val :: "ext_call \<Rightarrow> (nat \<Rightarrow> 'a) \<Rightarrow> 'a io" where
  "ext_val c f = (\<lambda>w. (Inr (f (length (trace w))), w\<lparr>trace := trace w @ [c]\<rparr>))"

text \<open>An external call that either raises or returns nothing of interest.\<close>

definition ext :: "env \<Rightarrow> ext_call \<Rightarrow> unit io" where
  "ext E c = io_bind (ext_val c (fault E c))
               (\<lambda>r. case r of None \<Rightarrow> ret () | Some e \<Rightarrow> raise e)"

section \<open>Generation backends (app/llm, app/health.py)\<close>

text \<open>\<^verbatim>\<open>OllamaClient._build_prompt\<close> (app/llm/ollama_llm.py).\<close>

definition OllamaClient_build_prompt ::
  "string \<Rightarrow> string \<Rightarrow> history_item list option \<Rightarrow> string" where
  \<open>OllamaClient_build_prompt context question history =
     (let history = (case history of None \<Rightarrow> [] | Some h \<Rightarrow> h);
          history_text =
            (if history \<noteq> [] then
               str_join ''\<newline>''
                 (foldl (\<lambda>conv_lines item.
                           conv_lines @
                           [str_upper (dict_get item ''role'' ''user'') @ '': '' @
                            dict_get item ''content'' []])
                    [] (drop (length history - 10) history))
             else []);
          prompt =
            ''You are a helpful assistant for a personal knowledge organizer.\<newline>'' @
            ''You must answer **only** based on the provided context.\<newline>'' @
            ''If the answer cannot be found in the context, reply explicitly that '' @
            ''"the answer is not found in the provided documents.".\<newline>\<newline>'';
          prompt =
            (if history_text \<noteq> [] then
               prompt @ ''Conversation history:\<newline>'' @ history_text @ ''\<newline>\<newline>''
             else prompt);
          prompt = prompt @ ''Context:\<newline>'';
          prompt = prompt @ context;
          prompt = prompt @ ''\<newline>\<newline>Question:\<newline>'';
          prompt = prompt @ question;
          prompt = prompt @ ''\<newline>\<newline>Answer:''
      in prompt)\<close>

text \<open>\<^verbatim>\<open>HuggingFaceClient._build_prompt\<close> (app/llm/hf_llm.py).\<close>

definition HuggingFaceClient_build_prompt ::
  "string \<Rightarrow> string \<Rightarrow> history_item list option \<Rightarrow> string" where
  \<open>HuggingFaceClient_build_prompt context question history =
     (let history = (case history of None \<Rightarrow> [] | Some h \<Rightarrow> h);
          history_text =
            (if history \<noteq> [] then
               str_join ''\<newline>''
                 (foldl (\<lambda>conv_lines item.
                           conv_lines @
                           [str_upper (dict_get item ''role'' ''user'') @ '': '' @
                            dict_get item ''content'' []])
                    [] (drop (length history - 10) history))
             else []);
          prompt =
            ''You are a helpful assistant for a personal knowledge organizer.\<newline>'' @
            ''You must answer **only** based on the provided context.\<newline>'' @
            ''If the answer cannot be found in the context, reply explicitly that '' @
            ''"the answer is not found in the provided documents.".\<newline>\<newline>'';
          prompt =
            (if history_text \<noteq> [] then
               prompt @ ''Conversation history:\<newline>'' @ history_text @ ''\<newline>\<newline>''
             else prompt);
          prompt = prompt @ ''Context:\<newline>'';
          prompt = prompt @ context;
          prompt = prompt @ ''\<newline>\<newline>Question:\<newline>'';
          prompt = prompt @ question;
          prompt = prompt @ ''\<newline>\<newline>Answer:''
      in prompt)\<close>

text \<open>app/health.py: the checks run before every remote generation request.\<close>

definition check_ollama_running :: "env \<Rightarrow> (bool \<times> string option) io" where
  "check_ollama_running E =
     io_bind (ext_val Requests_get
                (\<lambda>t. requests_get E t (str_rstrip CHR ''/'' (ollama_base_url (cfg E)) @ ''/'')))
       (\<lambda>r. case r of
               Response status body \<Rightarrow>
                 if 200 \<le> status \<and> status < 500 then ret (True, Some ''reachable'')
                 else ret (False, Some (''Ollama responded with HTTP '' @ str_nat status))
             | Raised_Timeout m \<Rightarrow> ret (False, Some ''Ollama not running'')
             | Raised_other m \<Rightarrow> ret (False, Some ''Ollama not running''))"

text \<open>
  \<^verbatim>\<open>_fetch_ollama_tags\<close> followed by the collection of the model names: the environment's
  \<open>response_models\<close> stands for \<^verbatim>\<open>raise_for_status\<close>, the JSON decoding and the reading
  of each entry's name, any of which may raise.
\<close>

definition fetch_ollama_models :: "env \<Rightarrow> string option list io" where
  "fetch_ollama_models E =
     io_bind (ext_val Requests_get
                (\<lambda>t. requests_get E t (str_rstrip CHR ''/'' (ollama_base_url (cfg E)) @ ''/api/tags'')))
       (\<lambda>r. case r of
               Response status body \<Rightarrow> lift_result (response_models E status body)
             | Raised_Timeout m \<Rightarrow> raise (Exn (OtherException ''Timeout'') m)
             | Raised_other m \<Rightarrow> raise (Exn (OtherException ''RequestException'') m))"

definition check_ollama_model_present :: "env \<Rightarrow> (bool \<times> string option) io" where
  "check_ollama_model_present E =
     catch
       (io_bind (check_ollama_running E)
          (\<lambda>(ok, msg).
             if \<not> ok then ret (False, msg)
             else io_bind (fetch_ollama_models E)
                    (\<lambda>models.
                       if Some (ollama_model (cfg E)) \<in> set models
                       then ret (True, Some (ollama_model (cfg E)))
                       else ret (False,
                              Some (''LLM model not found in Ollama. Please run: ollama pull '' @
                                    ollama_model (cfg E))))))
       (\<lambda>exc. ret (False, Some (''Could not verify model in Ollama: '' @ exn_str exc)))"

text \<open>
  \<^verbatim>\<open>OllamaClient.generate_answer\<close> (app/llm/ollama_llm.py); first the URL and the
  payload of its request.
\<close>

definition generate_url :: "env \<Rightarrow> string" where
  "generate_url E = str_rstrip CHR ''/'' (ollama_base_url (cfg E)) @ ''/api/generate''"

definition generate_payload ::
  "env \<Rightarrow> string \<Rightarrow> string \<Rightarrow> history_item list option \<Rightarrow> payload" where
  "generate_payload E context question history =
     \<lparr>p_model = ollama_model (cfg E),
      p_prompt = OllamaClient_build_prompt context question history,
      p_temperature = ollama_temperature (cfg E),
      p_max_tokens = ollama_max_tokens (cfg E),
      p_stream = False\<rparr>"

definition OllamaClient_generate_answer ::
  "env \<Rightarrow> string \<Rightarrow> string \<Rightarrow> history_item list option \<Rightarrow> string io" where
  "OllamaClient_generate_answer E context question history =
     io_bind (check_ollama_model_present E)
       (\<lambda>(ok, msg).
          if \<not> ok then
            (if msg = Some ''Ollama not running''
             then raise (Exn OllamaUnavailable ''Ollama not running'')
             else case msg of
                    Some m \<Rightarrow>
                      if m \<noteq> [] \<and> startswith m ''LLM model not found in Ollama''
                      then raise (Exn OllamaModelMissing m)
                      else raise (Exn OllamaRequestFailed
                                    (str_or msg ''Failed to validate Ollama model''))
                  | None \<Rightarrow>
                      raise (Exn OllamaRequestFailed
                               (str_or msg ''Failed to validate Ollama model'')))
          else
            (let url = generate_url E;
                 payload = generate_payload E context question history
             in io_bind (ext_val Requests_post (\<lambda>t. requests_post E t url payload))
                  (\<lambda>r. case r of
                          Raised_Timeout m \<Rightarrow>
                            raise (Exn OllamaRequestFailed ''Ollama request timed out'')
                        | Raised_other m \<Rightarrow>
                            raise (Exn OllamaUnavailable (''Ollama request failed: '' @ m))
                        | Response status text \<Rightarrow>
                            if status \<noteq> 200 then
                              raise (Exn OllamaRequestFailed
                                       (''Ollama error '' @ str_nat status @ '': '' @ text))
                            else
                              (case json_answer E text of
                                 None \<Rightarrow> ret text
                               | Some (response, txt) \<Rightarrow>
                                   ret (str_or response (str_or txt []))))))"

text \<open>\<^verbatim>\<open>HuggingFaceClient.generate_answer\<close> (app/llm/hf_llm.py).\<close>

definition HuggingFaceClient_generate_answer ::
  "env \<Rightarrow> string \<Rightarrow> string \<Rightarrow> history_item list option \<Rightarrow> string io" where
  "HuggingFaceClient_generate_answer E context question history =
     (let prompt = HuggingFaceClient_build_prompt context question history
      in io_bind (ext_val HF_generate (\<lambda>t. hf_generate E t prompt))
           (\<lambda>r. io_bind (lift_result r) (\<lambda>generated. ret (str_strip generated))))"

text \<open>\<^verbatim>\<open>get_llm_client\<close> and the dispatch of \<^verbatim>\<open>generate_answer\<close> (app/llm/llm_interface.py).\<close>

definition get_llm_client :: "env \<Rightarrow> llm_client io" where
  "get_llm_client E =
     io_bind (gets LLM_CLIENT)
       (\<lambda>cached. case cached of
           Some client \<Rightarrow> ret client
         | None \<Rightarrow>
             if llm_provider (cfg E) = ''ollama'' then
               io_bind (modify (\<lambda>w. w\<lparr>LLM_CLIENT := Some OllamaClient\<rparr>))
                 (\<lambda>_. ret OllamaClient)
             else if llm_provider (cfg E) = ''hf'' then
               io_bind (ext E HF_from_pretrained)
                 (\<lambda>_. io_bind (modify (\<lambda>w. w\<lparr>LLM_CLIENT := Some HuggingFaceClient\<rparr>))
                         (\<lambda>_. ret HuggingFaceClient))
             else raise (Exn ValueError (''Unsupported LLM provider: '' @ llm_provider (cfg E))))"

definition generate_answer ::
  "env \<Rightarrow> llm_client \<Rightarrow> string \<Rightarrow> string \<Rightarrow> history_item list option \<Rightarrow> string io" where
  "generate_answer E client =
     (case client of
        OllamaClient \<Rightarrow> OllamaClient_generate_answer E
      | HuggingFaceClient \<Rightarrow> HuggingFaceClient_generate_answer E)"

section \<open>Document normalizer (app/ingestion/loader.py)\<close>

definition read_text_file :: "env \<Rightarrow> string \<Rightarrow> string io" where
  "read_text_file E path =
     io_bind (ext_val Read_text (\<lambda>t. read_text E t path)) lift_result"

text \<open>
  A page is \<open>None\<close> when its extraction raises or returns nothing; \<open>pages\<close> is \<open>None\<close>
  when the page list cannot be read; \<open>pdf_open\<close> is \<open>None\<close> when the reader cannot be built.
\<close>

definition read_pdf_file :: "env \<Rightarrow> string \<Rightarrow> string io" where
  "read_pdf_file E path =
     io_bind (ext_val PdfReader_open (\<lambda>t. pdf_open E t path))
       (\<lambda>r. case r of
               None \<Rightarrow> ret []
             | Some reader \<Rightarrow>
                 if is_encrypted reader \<and> decrypt_raises reader then ret []
                 else (case pages reader of
                         None \<Rightarrow> ret []
                       | Some ps \<Rightarrow>
                           ret (str_join ''\<newline>''
                                  (foldl (\<lambda>text_parts page.
                                            let page_text = str_or page []
                                            in if page_text \<noteq> [] then text_parts @ [page_text]
                                               else text_parts)
                                     [] ps))))"

definition read_image_file :: "env \<Rightarrow> string \<Rightarrow> string io" where
  "read_image_file E path =
     (if \<not> pytesseract_installed E then raise (Exn TesseractError ''Tesseract not installed'')
      else io_bind (ext_val Image_to_string (\<lambda>t. image_to_string E t path))
             (\<lambda>r. case r of
                     Ocr_text text \<Rightarrow> ret (str_or text [])
                   | Ocr_timeout \<Rightarrow> raise (Exn TesseractError ''OCR timed out'')
                   | Ocr_raised \<Rightarrow> raise (Exn TesseractError ''OCR failed'')))"

text \<open>\<^verbatim>\<open>PurePath.name\<close> and \<^verbatim>\<open>PurePath.suffix\<close> on a POSIX path.\<close>

definition path_name :: "string \<Rightarrow> string" where
  "path_name p = rev (takeWhile (\<lambda>c. c \<noteq> CHR ''/'') (rev (str_rstrip CHR ''/'' p)))"

definition path_suffix :: "string \<Rightarrow> string" where
  "path_suffix p =
     (let name = path_name p;
          after = length (takeWhile (\<lambda>c. c \<noteq> CHR ''.'') (rev name))
      in if CHR ''.'' \<notin> set name then []
         else (let i = length name - after - 1
               in if 0 < i \<and> i + 1 < length name then drop i name else []))"

definition detect_file_type :: "string \<Rightarrow> string option" where
  "detect_file_type path =
     (let suffix = str_lower (path_suffix path)
      in if suffix \<in> {''.txt''} then Some ''txt''
         else if suffix \<in> {''.md''} then Some ''md''
         else if suffix \<in> {''.pdf''} then Some ''pdf''
         else if suffix \<in> {''.png'', ''.jpg'', ''.jpeg''} then Some ''image''
         else None)"

definition load_file :: "env \<Rightarrow> string \<Rightarrow> document list io" where
  "load_file E path0 =
     (let path = resolve E path0;
          ftype = detect_file_type path
      in case ftype of
           None \<Rightarrow> raise (Exn ValueError (''Unsupported file type for '' @ path))
         | Some ft \<Rightarrow>
             io_bind
               (if ft \<in> {''txt'', ''md''} then read_text_file E path
                else if ft = ''pdf'' then read_pdf_file E path
                else read_image_file E path)
               (\<lambda>text.
                  let text = str_strip text
                  in if text = [] then ret []
                     else ret [\<lparr>doc_text = text,
                                doc_metadata = [(''source_file'', MStr path),
                                                (''file_type'', MStr ft)]\<rparr>]))"

section \<open>Chunker (app/ingestion/chunker.py)\<close>

text \<open>
  The splitter is the library's \<^verbatim>\<open>RecursiveCharacterTextSplitter\<close>, built from the
  configured chunk size and overlap; the environment gives its \<^verbatim>\<open>split_text\<close>.
\<close>

definition get_text_splitter :: "env \<Rightarrow> string \<Rightarrow> string list" where
  "get_text_splitter E = text_splitter E"

definition chunk_documents :: "env \<Rightarrow> document list \<Rightarrow> chunk list" where
  "chunk_documents E docs =
     (let split_text = get_text_splitter E
      in foldl
           (\<lambda>chunks doc.
              let text = doc_text doc;
                  base_meta = doc_metadata doc
              in if str_strip text = [] then chunks
                 else foldl
                        (\<lambda>chunks (idx, chunk_text).
                           chunks @
                           [\<lparr>chunk_text = chunk_text,
                             chunk_metadata =
                               AList.update ''chunk_index'' (MInt (int idx)) base_meta\<rparr>])
                        chunks (List.enumerate 0 (split_text text)))
           [] docs)"

section \<open>Embedding provider (app/embeddings/embedder.py)\<close>

definition get_embedder :: "env \<Rightarrow> unit io" where
  "get_embedder E =
     io_bind (gets EMBEDDER)
       (\<lambda>loaded.
          if \<not> loaded then
            io_bind
              (catch (ext E SentenceTransformer_load)
                 (\<lambda>exc. raise (Exn EmbeddingModelError ''Embedding model missing'')))
              (\<lambda>_. modify (\<lambda>w. w\<lparr>EMBEDDER := True\<rparr>))
          else ret ())"

definition embed_texts :: "env \<Rightarrow> string list \<Rightarrow> real list list io" where
  "embed_texts E texts =
     (if texts = [] then ret []
      else io_bind (get_embedder E)
             (\<lambda>model.
                catch (io_bind (ext_val Model_encode (\<lambda>t. encode E t texts)) lift_result)
                  (\<lambda>exc. raise (Exn EmbeddingModelError ''Embedding model missing''))))"

section \<open>Vector index (app/vectorstore/chroma_store.py)\<close>

text \<open>
  The persisted store is the list of records under \<open>chroma_db\<close> (\<open>None\<close>: the directory
  does not exist).  The backend's contract: \<^verbatim>\<open>add\<close> appends one record per id,
  \<^verbatim>\<open>count\<close> is the number of records, \<^verbatim>\<open>get\<close> lists their metadata; what
  \<^verbatim>\<open>query\<close> returns is the environment's.
\<close>

definition ensure_directories :: "env \<Rightarrow> unit io" where
  "ensure_directories E =
     io_bind (ext E Mkdir_uploads)
       (\<lambda>_. io_bind (ext E Mkdir_chroma_db)
               (\<lambda>_. modify (\<lambda>w. case chroma_db w of
                                    None \<Rightarrow> w\<lparr>chroma_db := Some []\<rparr>
                                  | Some recs \<Rightarrow> w)))"

definition get_client :: "env \<Rightarrow> unit io" where
  "get_client E =
     io_bind (gets CLIENT)
       (\<lambda>opened.
          if \<not> opened then
            io_bind (ensure_directories E)
              (\<lambda>_. io_bind
                      (catch (ext E PersistentClient)
                         (\<lambda>exc. raise (Exn VectorDbError ''Vector DB error'')))
                      (\<lambda>_. modify (\<lambda>w. w\<lparr>CLIENT := True\<rparr>)))
          else ret ())"

definition get_vector_store :: "env \<Rightarrow> unit io" where
  "get_vector_store E =
     io_bind (gets COLLECTION)
       (\<lambda>opened.
          if \<not> opened then
            io_bind (get_client E)
              (\<lambda>client. io_bind
                      (catch (ext E Get_or_create_collection)
                         (\<lambda>exc. raise (Exn VectorDbError ''Vector DB error'')))
                      (\<lambda>_. modify (\<lambda>w. w\<lparr>COLLECTION := True\<rparr>)))
          else ret ())"

definition records :: "world \<Rightarrow> stored list" where
  "records w = (case chroma_db w of None \<Rightarrow> [] | Some recs \<Rightarrow> recs)"

definition collection_add ::
  "env \<Rightarrow> string list \<Rightarrow> string list \<Rightarrow> metadata list \<Rightarrow> real list list \<Rightarrow> unit io" where
  "collection_add E ids texts metas embeddings =
     io_bind (ext E Collection_add)
       (\<lambda>_. if length texts \<noteq> length ids \<or> length metas \<noteq> length ids
                \<or> length embeddings \<noteq> length ids
             then raise (Exn ValueError ''Unequal lengths'')
             else modify (\<lambda>w. w\<lparr>chroma_db :=
                    Some (records w @
                          map (\<lambda>(i, t, m, v). \<lparr>stored_id = i, stored_text = t,
                                               stored_metadata = m, stored_embedding = v\<rparr>)
                            (zip ids (zip texts (zip metas embeddings))))\<rparr>))"

definition add_documents :: "env \<Rightarrow> chunk list \<Rightarrow> nat io" where
  "add_documents E chunks =
     (if chunks = [] then ret 0
      else
        (let texts = map chunk_text chunks;
             metas = map chunk_metadata chunks
         in io_bind (gets (\<lambda>w. map (uuid4 E (length (trace w))) [0..<length chunks]))
              (\<lambda>ids. io_bind (embed_texts E texts)
                 (\<lambda>embeddings. io_bind (get_vector_store E)
                    (\<lambda>collection. io_bind
                       (catch (collection_add E ids texts metas embeddings)
                          (\<lambda>exc. raise (Exn VectorDbError ''Vector DB error'')))
                       (\<lambda>_. ret (length chunks)))))))"

definition clear_vector_store :: "env \<Rightarrow> unit io" where
  "clear_vector_store E =
     io_bind (modify (\<lambda>w. w\<lparr>COLLECTION := False\<rparr>))
       (\<lambda>_. io_bind (modify (\<lambda>w. w\<lparr>CLIENT := False\<rparr>))
          (\<lambda>_. catch
                  (io_bind (gets (\<lambda>w. chroma_db w \<noteq> None))
                     (\<lambda>exists.
                        io_bind
                          (if exists then
                             io_bind (ext E Rmtree_chroma_db)
                               (\<lambda>_. modify (\<lambda>w. w\<lparr>chroma_db := None\<rparr>))
                           else ret ())
                          (\<lambda>_. ensure_directories E)))
                  (\<lambda>exc. raise (Exn VectorDbError ''Vector DB error''))))"

record file_summary =
  fs_source_file :: string
  fs_file_type :: "string option"
  fs_num_chunks :: nat

definition list_indexed_files :: "env \<Rightarrow> file_summary list io" where
  "list_indexed_files E =
     io_bind (get_vector_store E)
       (\<lambda>collection.
          catch
            (io_bind (ext E Collection_get)
               (\<lambda>_. io_bind (gets (\<lambda>w. map stored_metadata (records w)))
                  (\<lambda>metas.
                     let stats =
                           foldl
                             (\<lambda>stats meta.
                                if meta = [] then stats
                                else
                                  (let source = map_of meta ''source_file'';
                                       ftype = map_of meta ''file_type''
                                   in if source = None \<or> source = Some (MStr [])
                                         \<or> source = Some (MInt 0) then stats
                                      else
                                        (let key = (fmt source,
                                                    case ftype of Some (MStr s) \<Rightarrow> Some s
                                                                | _ \<Rightarrow> None)
                                         in AList.update key (dict_get stats key 0 + 1) stats)))
                             [] metas
                     in ret (map (\<lambda>((source, ftype), num_chunks).
                                    \<lparr>fs_source_file = source, fs_file_type = ftype,
                                     fs_num_chunks = num_chunks\<rparr>)
                               stats))))
            (\<lambda>exc. ret []))"

definition count_chunks :: "env \<Rightarrow> nat io" where
  "count_chunks E =
     io_bind (get_vector_store E)
       (\<lambda>collection.
          catch (io_bind (ext E Collection_count) (\<lambda>_. gets (\<lambda>w. length (records w))))
            (\<lambda>exc. ret 0))"

definition query_similar :: "env \<Rightarrow> string \<Rightarrow> int \<Rightarrow> query_result io" where
  "query_similar E query_text n_results =
     io_bind (get_vector_store E)
       (\<lambda>collection.
          catch
            (io_bind (\<lambda>w. ext_val Collection_query
                             (\<lambda>t. collection_query E t (records w) query_text n_results) w)
               lift_result)
            (\<lambda>exc. raise (Exn VectorDbError ''Vector DB error'')))"

section \<open>Retrieval-augmented pipeline (app/rag/pipeline.py)\<close>

text \<open>\<^verbatim>\<open>rows or [[]]\<close> for a field of the raw query result.\<close>

definition rows_or :: "'a list list option \<Rightarrow> 'a list list" where
  "rows_or x = (case x of None \<Rightarrow> [[]] | Some rows \<Rightarrow> if rows = [] then [[]] else rows)"

definition meta_get :: "metadata option \<Rightarrow> string \<Rightarrow> mval option" where
  "meta_get meta k = (case meta of None \<Rightarrow> None | Some m \<Rightarrow> map_of m k)"

definition format_context_and_sources :: "query_result \<Rightarrow> string \<times> source list" where
  "format_context_and_sources res =
     (let docs = rows_or (documents res);
          metas = rows_or (metadatas res);
          dists = rows_or (distances res);
          (context_lines, sources) =
            foldl
              (\<lambda>acc (docs_row, metas_row, dists_row).
                 foldl
                   (\<lambda>(context_lines, sources) (doc, meta, dist).
                      let source_file = meta_get meta ''source_file'';
                          chunk_index = meta_get meta ''chunk_index'';
                          file_type = meta_get meta ''file_type''
                      in (context_lines @
                          [''[source='' @ fmt source_file @ '' chunk='' @ fmt chunk_index @
                           ''] '' @ doc],
                          sources @
                          [\<lparr>source_file = source_file, chunk_index = chunk_index,
                            file_type = file_type, score = dist\<rparr>]))
                   acc (zip docs_row (zip metas_row dists_row)))
              ([], []) (zip docs (zip metas dists))
      in (str_join ''\<newline>\<newline>'' context_lines, sources))"

definition answer_question :: "env \<Rightarrow> string \<Rightarrow> history_item list option \<Rightarrow> rag_result io" where
  "answer_question E question history =
     io_bind (query_similar E question (top_k (cfg E)))
       (\<lambda>retrieval.
          let (context, sources) = format_context_and_sources retrieval
          in if str_strip context = [] then
               ret \<lparr>answer = ''The answer is not found in the provided documents.'',
                    sources = []\<rparr>
             else
               io_bind (get_llm_client E)
                 (\<lambda>llm. io_bind (generate_answer E llm context question history)
                    (\<lambda>answer. ret \<lparr>answer = str_strip answer, sources = sources\<rparr>)))"

section \<open>Ingestion orchestrator (app/main.py)\<close>

text \<open>\<^verbatim>\<open>os.path.basename\<close> and joining a directory with a name that holds no slash.\<close>

definition basename :: "string \<Rightarrow> string" where
  "basename p = rev (takeWhile (\<lambda>c. c \<noteq> CHR ''/'') (rev p))"

definition path_join :: "string \<Rightarrow> string \<Rightarrow> string" where
  "path_join dir name = (if name = [] then dir else dir @ ''/'' @ name)"

text \<open>The file type read back from the first document; the normalizer stores a string there.\<close>

definition first_file_type :: "document list \<Rightarrow> string option" where
  "first_file_type docs =
     (case docs of
        [] \<Rightarrow> None
      | d # _ \<Rightarrow> (case map_of (doc_metadata d) ''file_type'' of
                    Some (MStr s) \<Rightarrow> Some s
                  | _ \<Rightarrow> None))"

text \<open>The body of the \<^verbatim>\<open>try\<close> block: save, load, chunk, store.\<close>

definition ingest_pipeline :: "env \<Rightarrow> UploadFile \<Rightarrow> (document list \<times> nat) io" where
  "ingest_pipeline E up =
     (let filename = basename (str_or (up_filename up) ''unknown'');
          save_path = path_join (uploads_path (cfg E)) filename
      in io_bind (ext E Upload_read)
           (\<lambda>_. io_bind (ext E Write_bytes)
              (\<lambda>_. io_bind (load_file E save_path)
                 (\<lambda>docs.
                    let chunks = chunk_documents E docs
                    in io_bind (add_documents E chunks)
                         (\<lambda>added. ret (docs, added))))))"

text \<open>The message each \<^verbatim>\<open>except\<close> clause records.\<close>

definition error_message :: "exn \<Rightarrow> string" where
  "error_message exc =
     (case exn_kind exc of
        TesseractError \<Rightarrow> str_or (Some (exn_str exc)) ''Tesseract not installed''
      | EmbeddingModelError \<Rightarrow> ''Embedding model missing''
      | VectorDbError \<Rightarrow> ''Vector DB error''
      | _ \<Rightarrow> exn_str exc)"

text \<open>One iteration of the loop over the uploaded files.\<close>

definition ingest_file ::
  "env \<Rightarrow> UploadFile \<Rightarrow> IngestFileResult list \<times> nat \<Rightarrow> (IngestFileResult list \<times> nat) io" where
  "ingest_file E up = (\<lambda>(results, total_chunks).
     let filename = basename (str_or (up_filename up) ''unknown'')
     in catch
          (io_bind (ingest_pipeline E up)
             (\<lambda>(docs, added).
                let total_chunks = total_chunks + added;
                    file_type = first_file_type docs
                in ret (results @
                        [\<lparr>res_filename = filename, res_file_type = file_type,
                          chunks_added = added, error = None\<rparr>],
                        total_chunks)))
          (\<lambda>exc.
             let ftype = detect_file_type filename
             in ret (results @
                     [\<lparr>res_filename = filename, res_file_type = ftype,
                       chunks_added = 0, error = Some (error_message exc)\<rparr>],
                     total_chunks)))"

fun ingest_loop ::
  "env \<Rightarrow> UploadFile list \<Rightarrow> IngestFileResult list \<times> nat \<Rightarrow> (IngestFileResult list \<times> nat) io" where
  "ingest_loop E [] acc = ret acc"
| "ingest_loop E (up # ups) acc = io_bind (ingest_file E up acc) (ingest_loop E ups)"

definition ingest :: "env \<Rightarrow> UploadFile list \<Rightarrow> IngestResponse io" where
  "ingest E files =
     (if files = [] then raise (Exn (HTTPException 400) ''No files uploaded.'')
      else io_bind (ingest_loop E files ([], 0))
             (\<lambda>(results, total_chunks).
                ret \<lparr>results = results, total_chunks = total_chunks\<rparr>))"

section \<open>A sample configuration, environment and initial state\<close>

text \<open>The defaults of app/config.py, with the data directory at a fixed place.\<close>

definition default_settings :: settings where
  "default_settings =
     \<lparr>uploads_path = ''/srv/pko/backend/data/uploads'',
      chroma_db_path = ''/srv/pko/backend/data/chroma_db'',
      chunk_size = 800, chunk_overlap = 200,
      llm_provider = ''ollama'',
      ollama_base_url = ''http://127.0.0.1:11434'',
      ollama_model = ''llama3.1:8b'',
      ollama_temperature = 1 / 10,
      ollama_max_tokens = 512,
      ollama_timeout_seconds = 60,
      health_timeout_seconds = 5,
      ocr_timeout_seconds = 30,
      top_k = 6\<rparr>"

text \<open>
  An environment in which every dependency answers: files hold two words, the splitter
  cuts after six characters, the model server lists the configured model, and the vector
  store returns the first \<open>n\<close> records for a positive \<open>n\<close> and rejects any other \<open>n\<close>.
\<close>

definition sample_query :: "nat \<Rightarrow> stored list \<Rightarrow> string \<Rightarrow> int \<Rightarrow> exn + query_result" where
  "sample_query t recs query_text n =
     (if n \<le> 0 then
        Inl (Exn (OtherException ''TypeError'')
               (''Number of requested results '' @ str_int n @ '', cannot be negative, or zero.''))
      else
        Inr \<lparr>documents = Some [map stored_text (take (nat n) recs)],
             metadatas = Some [map (\<lambda>r. Some (stored_metadata r)) (take (nat n) recs)],
             distances = Some [map (\<lambda>r. Some 0) (take (nat n) recs)]\<rparr>)"

definition sample_env :: env where
  "sample_env =
     \<lparr>cfg = default_settings,
      fault = (\<lambda>c t. None),
      resolve = (\<lambda>p. p),
      read_text = (\<lambda>t p. Inr ''Alpha beta''),
      pdf_open = (\<lambda>t p. Some \<lparr>is_encrypted = False, decrypt_raises = False,
                                 pages = Some [Some ''Page one'', None]\<rparr>),
      pytesseract_installed = True,
      image_to_string = (\<lambda>t p. Ocr_text (Some ''Scanned'')),
      text_splitter = (\<lambda>s. [take 6 s, drop 6 s]),
      encode = (\<lambda>t texts. Inr (map (\<lambda>s. [real (length s)]) texts)),
      uuid4 = (\<lambda>t i. ''id-'' @ str_nat t @ ''-'' @ str_nat i),
      collection_query = sample_query,
      requests_get = (\<lambda>t url. Response 200 ''ok''),
      requests_post = (\<lambda>t url p. Response 200 ''ok''),
      response_models = (\<lambda>status body. Inr [Some ''llama3.1:8b'']),
      json_answer = (\<lambda>body. Some (Some ''Forty-two'', None)),
      hf_generate = (\<lambda>t prompt. Inr '' Forty-two '')\<rparr>"

definition initial_world :: world where
  "initial_world =
     \<lparr>EMBEDDER = False, CLIENT = False, COLLECTION = False, LLM_CLIENT = None,
      chroma_db = None, trace = []\<rparr>"

section \<open>The prompt contract, in the words of the specification\<close>

definition render_history_item :: "history_item \<Rightarrow> string" where
  "render_history_item item =
     str_upper (dict_get item ''role'' ''user'') @ '': '' @ dict_get item ''content'' []"

definition instruction_block :: string where
  \<open>instruction_block =
     ''You are a helpful assistant for a personal knowledge organizer.\<newline>You must answer **only** based on the provided context.\<newline>If the answer cannot be found in the context, reply explicitly that "the answer is not found in the provided documents.".\<newline>\<newline>''\<close>

definition last_turns :: "history_item list option \<Rightarrow> history_item list" where
  "last_turns history =
     (case history of None \<Rightarrow> [] | Some h \<Rightarrow> drop (length h - 10) h)"

definition history_block :: "history_item list option \<Rightarrow> string" where
  "history_block history =
     (if last_turns history = [] then []
      else ''Conversation history:\<newline>'' @
           str_join ''\<newline>'' (map render_history_item (last_turns history)) @
           ''\<newline>\<newline>'')"

definition prompt_contract :: "string \<Rightarrow> string \<Rightarrow> history_item list option \<Rightarrow> string" where
  "prompt_contract context question history =
     instruction_block @ history_block history @ ''Context:\<newline>'' @ context @
     ''\<newline>\<newline>Question:\<newline>'' @ question @ ''\<newline>\<newline>Answer:''"

section \<open>Sets of external calls, and more sample environments\<close>

text \<open>The calls that reach a generation backend, and the calls a similarity query may make.\<close>

definition generation_calls :: "ext_call set" where
  "generation_calls = {Requests_get, Requests_post, HF_from_pretrained, HF_generate}"

definition store_calls :: "ext_call set" where
  "store_calls = {Mkdir_uploads, Mkdir_chroma_db, PersistentClient, Get_or_create_collection,
                  Collection_query}"

text \<open>Whatever the state, the computation appends only calls of \<open>S\<close> to the record.\<close>

definition calls_within :: "ext_call set \<Rightarrow> 'a io \<Rightarrow> bool" where
  "calls_within S m = (\<forall>w. \<exists>ts. trace (snd (m w)) = trace w @ ts \<and> set ts \<subseteq> S)"

text \<open>A model server that refuses the generation request, and one that never answers it.\<close>

definition refusing_env :: env where
  "refusing_env = sample_env\<lparr>requests_post := (\<lambda>t url p. Raised_other ''Connection refused'')\<rparr>"

definition slow_env :: env where
  "slow_env = sample_env\<lparr>requests_post := (\<lambda>t url p. Raised_Timeout ''Read timed out'')\<rparr>"

section \<open>Chunks of one document, and the outcomes of a batch\<close>

text \<open>An upload whose file holds only whitespace, and the environment that serves it.\<close>

definition blank_env :: env where
  "blank_env = sample_env\<lparr>read_text := (\<lambda>t p. Inr [CHR '' '', CHR 0x0A, CHR 0x09])\<rparr>"

definition notes_upload :: UploadFile where
  "notes_upload = \<lparr>up_filename = Some ''notes.txt'', up_content = [CHR '' '', CHR 0x0A, CHR 0x09]\<rparr>"

text \<open>The \<open>chunk_index\<close> entries of a list of chunks, in order.\<close>

definition indices :: "chunk list \<Rightarrow> mval option list" where
  "indices cs = map (\<lambda>c. map_of (chunk_metadata c) ''chunk_index'') cs"

text \<open>The chunks of one document under a given splitter.\<close>

definition split_doc :: "(string \<Rightarrow> string list) \<Rightarrow> document \<Rightarrow> chunk list" where
  "split_doc sp d =
     (if str_strip (doc_text d) = [] then []
      else map (\<lambda>(idx, t). \<lparr>chunk_text = t,
                  chunk_metadata = AList.update ''chunk_index'' (MInt (int idx)) (doc_metadata d)\<rparr>)
             (List.enumerate 0 (sp (doc_text d))))"

text \<open>
  The pipeline of each file in turn, each started in the state the previous one left,
  whether that one returned or raised; and the record a file's outcome is turned into.
\<close>

fun run_pipelines ::
  "env \<Rightarrow> UploadFile list \<Rightarrow> world \<Rightarrow> (exn + document list \<times> nat) list \<times> world" where
  "run_pipelines E [] w = ([], w)"
| "run_pipelines E (up # ups) w =
     (let (r, w1) = ingest_pipeline E up w;
          (rs, w2) = run_pipelines E ups w1
      in (r # rs, w2))"

definition file_result :: "UploadFile \<Rightarrow> exn + document list \<times> nat \<Rightarrow> IngestFileResult" where
  "file_result up r =
     (let filename = basename (str_or (up_filename up) ''unknown'')
      in case r of
           Inl exc \<Rightarrow> \<lparr>res_filename = filename, res_file_type = detect_file_type filename,
                        chunks_added = 0, error = Some (error_message exc)\<rparr>
         | Inr (docs, added) \<Rightarrow> \<lparr>res_filename = filename, res_file_type = first_file_type docs,
                                  chunks_added = added, error = None\<rparr>)"

definition file_results :: "env \<Rightarrow> UploadFile list \<Rightarrow> world \<Rightarrow> IngestFileResult list" where
  "file_results E files w = map (\<lambda>(up, r). file_result up r) (zip files (fst (run_pipelines E files w)))"

section \<open>A sample batch and the states it leaves\<close>

text \<open>
  A text file and a document of an unsupported type, uploaded in this order; the document
  the normalizer returns for the first; a document with only whitespace; the state after
  the first file is stored, and that state after the store is cleared.
\<close>

definition notes_path :: string where
  "notes_path = ''/srv/pko/backend/data/uploads/notes.txt''"

definition notes_doc :: document where
  "notes_doc = \<lparr>doc_text = ''Alpha beta'',
                 doc_metadata = [(''source_file'', MStr notes_path), (''file_type'', MStr ''txt'')]\<rparr>"

definition alpha_upload :: UploadFile where
  "alpha_upload = \<lparr>up_filename = Some ''notes.txt'', up_content = ''Alpha beta''\<rparr>"

definition report_upload :: UploadFile where
  "report_upload = \<lparr>up_filename = Some ''report.docx'', up_content = ''PK''\<rparr>"

definition alpha_world :: world where
  "alpha_world =
     \<lparr>EMBEDDER = True, CLIENT = True, COLLECTION = True, LLM_CLIENT = None,
      chroma_db =
        Some [\<lparr>stored_id = ''id-3-0'', stored_text = ''Alpha '',
                stored_metadata = [(''source_file'', MStr notes_path), (''file_type'', MStr ''txt''),
                                   (''chunk_index'', MInt 0)],
                stored_embedding = [6]\<rparr>,
              \<lparr>stored_id = ''id-3-1'', stored_text = ''beta'',
                stored_metadata = [(''source_file'', MStr notes_path), (''file_type'', MStr ''txt''),
                                   (''chunk_index'', MInt 1)],
                stored_embedding = [4]\<rparr>],
      trace = [Upload_read, Write_bytes, Read_text, SentenceTransformer_load, Model_encode,
               Mkdir_uploads, Mkdir_chroma_db, PersistentClient, Get_or_create_collection,
               Collection_add]\<rparr>"

definition blank_doc :: document where
  "blank_doc = \<lparr>doc_text = [CHR '' '', CHR 0x0A], doc_metadata = [(''source_file'', MStr ''/tmp/blank.txt'')]\<rparr>"

definition cleared_world :: world where
  "cleared_world =
     alpha_world\<lparr>COLLECTION := False, CLIENT := False, chroma_db := Some [],
                  trace := trace alpha_world @ [Rmtree_chroma_db, Mkdir_uploads, Mkdir_chroma_db]\<rparr>"

text \<open>The calls that open the store when no handle is cached.\<close>

definition opening_calls :: "ext_call list" where
  "opening_calls = [Mkdir_uploads, Mkdir_chroma_db, PersistentClient, Get_or_create_collection]"

section \<open>Lemmas on strings and loops\<close>

lemma foldl_append_map: "foldl (\<lambda>acc x. acc @ [f x]) a xs = a @ map f xs"
  by (induction xs arbitrary: a) simp_all

lemma str_join_nonempty: "xs \<noteq> [] \<Longrightarrow> hd xs \<noteq> [] \<Longrightarrow> str_join sep xs \<noteq> []"
  by (cases "(sep, xs)" rule: str_join.cases) simp_all

lemma last10_nonempty: "h \<noteq> [] \<Longrightarrow> drop (length h - 10) h \<noteq> []"
  by (cases h) simp_all

lemma render_nonempty: "render_history_item item \<noteq> []"
  by (simp add: render_history_item_def)

lemma render_history_item_abs:
  "render_history_item =
     (\<lambda>item. str_upper (dict_get item ''role'' ''user'') @ '': '' @ dict_get item ''content'' [])"
  by (rule ext) (simp add: render_history_item_def)

lemma history_text_nonempty:
  assumes "h \<noteq> []"
  shows "str_join sep (map render_history_item (drop (length h - 10) h)) \<noteq> []"
proof -
  from assms have "drop (length h - 10) h \<noteq> []" by (rule last10_nonempty)
  then obtain x xs where l: "drop (length h - 10) h = x # xs"
    by (cases "drop (length h - 10) h") auto
  show ?thesis
    unfolding l by (rule str_join_nonempty) (simp_all add: render_nonempty)
qed

section \<open>The two prompt builders\<close>

lemma Ollama_prompt_contract:
  "OllamaClient_build_prompt ctx question history = prompt_contract ctx question history"
proof (cases history)
  case None
  then show ?thesis
    by (simp add: OllamaClient_build_prompt_def prompt_contract_def history_block_def
        last_turns_def instruction_block_def)
next
  case (Some h)
  show ?thesis
  proof (cases "h = []")
    case True
    with Some show ?thesis
      by (simp add: OllamaClient_build_prompt_def prompt_contract_def history_block_def
          last_turns_def instruction_block_def)
  next
    case False
    from history_text_nonempty [OF False]
    have ne: "str_join ''\<newline>'' (map render_history_item (drop (length h - 10) h)) \<noteq> []" .
    from False have l: "drop (length h - 10) h \<noteq> []" by (rule last10_nonempty)
    from Some False ne l show ?thesis
      by (simp add: OllamaClient_build_prompt_def prompt_contract_def history_block_def
          last_turns_def instruction_block_def foldl_append_map render_history_item_abs)
  qed
qed

text \<open>
  C4.  For every context, question and history the remote and the in-process backend build
  the same prompt, character for character, and that prompt is the instruction block, then
  (when there is history) the heading and at most the last ten history items, each rendered
  as the upper-cased role, a colon and the content, then the context block, the question
  and the final answer cue.
\<close>

theorem build_prompt_identical:
  "OllamaClient_build_prompt ctx question history =
     HuggingFaceClient_build_prompt ctx question history
   \<and> HuggingFaceClient_build_prompt ctx question history = prompt_contract ctx question history
   \<and> length (last_turns history) \<le> 10"
proof -
  have eq: "OllamaClient_build_prompt ctx question history =
     HuggingFaceClient_build_prompt ctx question history"
    by (simp add: OllamaClient_build_prompt_def HuggingFaceClient_build_prompt_def)
  have len: "length (last_turns history) \<le> 10"
    by (cases history) (simp_all add: last_turns_def)
  show ?thesis using eq len Ollama_prompt_contract [of ctx question history] by simp
qed

section \<open>Empty inputs of the embedding provider and the vector index\<close>

text \<open>
  C6.  On the empty list \<open>embed_texts\<close> returns the empty list and \<open>add_documents\<close>
  returns 0; neither raises, and the program state after the call is the state before it:
  no model was loaded, no store was opened and no external call was recorded.
\<close>

theorem empty_input_no_dependency:
  "embed_texts E [] w = (Inr [], w) \<and> add_documents E [] w = (Inr 0, w)"
  by (simp add: embed_texts_def add_documents_def ret_def)

section \<open>Sequencing lemmas\<close>

lemmas io_defs = io_bind_def catch_def ret_def raise_def modify_def gets_def lift_result_def
  ext_val_def ext_def

lemma calls_within_ret: "calls_within S (ret x)"
  by (simp add: calls_within_def ret_def)

lemma calls_within_raise: "calls_within S (raise e)"
  by (simp add: calls_within_def raise_def)

lemma calls_within_gets: "calls_within S (gets f)"
  by (simp add: calls_within_def gets_def)

lemma calls_within_lift_result: "calls_within S (lift_result r)"
  by (simp add: calls_within_def lift_result_def)

lemma calls_within_modify: "(\<And>w. trace (f w) = trace w) \<Longrightarrow> calls_within S (modify f)"
  by (simp add: calls_within_def modify_def)

lemma calls_within_ext_val: "c \<in> S \<Longrightarrow> calls_within S (ext_val c f)"
  by (simp add: calls_within_def ext_val_def)

lemma calls_within_bind:
  assumes m: "calls_within S m" and f: "\<And>x. calls_within S (f x)"
  shows "calls_within S (io_bind m f)"
  unfolding calls_within_def
proof
  fix w
  from m obtain ts where ts: "trace (snd (m w)) = trace w @ ts" "set ts \<subseteq> S"
    unfolding calls_within_def by blast
  show "\<exists>ts. trace (snd (io_bind m f w)) = trace w @ ts \<and> set ts \<subseteq> S"
  proof (cases "m w")
    case (Pair r w')
    show ?thesis
    proof (cases r)
      case (Inl e)
      with Pair ts show ?thesis by (auto simp: io_bind_def)
    next
      case (Inr x)
      from f [of x] obtain us where us: "trace (snd (f x w')) = trace w' @ us" "set us \<subseteq> S"
        unfolding calls_within_def by blast
      from Pair Inr ts us
      have "trace (snd (io_bind m f w)) = trace w @ (ts @ us)" "set (ts @ us) \<subseteq> S"
        by (auto simp: io_bind_def)
      then show ?thesis by blast
    qed
  qed
qed

lemma calls_within_catch:
  assumes m: "calls_within S m" and h: "\<And>e. calls_within S (h e)"
  shows "calls_within S (catch m h)"
  unfolding calls_within_def
proof
  fix w
  from m obtain ts where ts: "trace (snd (m w)) = trace w @ ts" "set ts \<subseteq> S"
    unfolding calls_within_def by blast
  show "\<exists>ts. trace (snd (catch m h w)) = trace w @ ts \<and> set ts \<subseteq> S"
  proof (cases "m w")
    case (Pair r w')
    show ?thesis
    proof (cases r)
      case (Inr x)
      with Pair ts show ?thesis by (auto simp: catch_def)
    next
      case (Inl e)
      from h [of e] obtain us where us: "trace (snd (h e w')) = trace w' @ us" "set us \<subseteq> S"
        unfolding calls_within_def by blast
      from Pair Inl ts us
      have "trace (snd (catch m h w)) = trace w @ (ts @ us)" "set (ts @ us) \<subseteq> S"
        by (auto simp: catch_def)
      then show ?thesis by blast
    qed
  qed
qed

lemma calls_within_ext: "c \<in> S \<Longrightarrow> calls_within S (ext E c)"
  unfolding ext_def
  by (intro calls_within_bind calls_within_ext_val)
     (auto split: option.splits intro: calls_within_ret calls_within_raise)

lemmas calls_within_intros = calls_within_bind calls_within_catch calls_within_ret
  calls_within_raise calls_within_gets calls_within_lift_result calls_within_modify
  calls_within_ext calls_within_ext_val

lemma store_calls_mem:
  "Mkdir_uploads \<in> store_calls" "Mkdir_chroma_db \<in> store_calls"
  "PersistentClient \<in> store_calls" "Get_or_create_collection \<in> store_calls"
  "Collection_query \<in> store_calls"
  by (simp_all add: store_calls_def)

lemma calls_within_ensure_directories: "calls_within store_calls (ensure_directories E)"
  unfolding ensure_directories_def
  by (intro calls_within_intros) (auto simp: store_calls_mem split: option.splits)

lemma calls_within_get_client: "calls_within store_calls (get_client E)"
  unfolding get_client_def
  by (auto intro!: calls_within_intros calls_within_ensure_directories simp: store_calls_mem)

lemma calls_within_get_vector_store: "calls_within store_calls (get_vector_store E)"
  unfolding get_vector_store_def
  by (auto intro!: calls_within_intros calls_within_get_client simp: store_calls_mem)

lemma calls_within_query_similar: "calls_within store_calls (query_similar E q n)"
  unfolding query_similar_def
  by (rule calls_within_bind [OF calls_within_get_vector_store])
     (auto simp: calls_within_def io_bind_def ext_val_def lift_result_def catch_def raise_def
        store_calls_mem split: sum.splits)

section \<open>Unsupported file types\<close>

lemma detect_docx: "detect_file_type ''/srv/pko/backend/data/uploads/report.docx'' = None"
  by (simp add: detect_file_type_def path_suffix_def path_name_def str_rstrip_def
      str_lower_def lower_char_def)

text \<open>
  C9, as amended.  For every path whose resolved form has a (lower-cased) suffix outside
  .txt, .md, .pdf, .png, .jpg and .jpeg, \<open>load_file\<close> raises the built-in
  \<open>ValueError\<close> with the message "Unsupported file type for" and the resolved path, before
  any external call; app/errors.py declares no class for this failure.
\<close>

theorem load_file_unsupported:
  "str_lower (path_suffix (resolve E p)) \<notin> {''.txt'', ''.md'', ''.pdf'', ''.png'', ''.jpg'', ''.jpeg''}
   \<Longrightarrow> load_file E p w =
         (Inl (Exn ValueError (''Unsupported file type for '' @ resolve E p)), w)"
  by (simp add: load_file_def detect_file_type_def raise_def Let_def)

theorem load_file_unsupported_witness:
  "str_lower (path_suffix (resolve sample_env ''/srv/pko/backend/data/uploads/report.docx''))
     \<notin> {''.txt'', ''.md'', ''.pdf'', ''.png'', ''.jpg'', ''.jpeg''}
   \<and> load_file sample_env ''/srv/pko/backend/data/uploads/report.docx'' initial_world =
       (Inl (Exn ValueError
               ''Unsupported file type for /srv/pko/backend/data/uploads/report.docx''),
        initial_world)"
proof -
  have h: "str_lower (path_suffix (resolve sample_env ''/srv/pko/backend/data/uploads/report.docx''))
     \<notin> {''.txt'', ''.md'', ''.pdf'', ''.png'', ''.jpg'', ''.jpeg''}"
    by (simp add: sample_env_def path_suffix_def path_name_def str_rstrip_def
        str_lower_def lower_char_def)
  show ?thesis
    using h load_file_unsupported [OF h, of initial_world] by (simp add: sample_env_def)
qed

text \<open>
  The claim as stated fails: the failure raised for a .docx upload is a \<open>ValueError\<close>,
  which is none of the typed backend errors.
\<close>

theorem load_file_unsupported_counterexample:
  "fst (load_file sample_env ''/srv/pko/backend/data/uploads/report.docx'' initial_world) =
     Inl (Exn ValueError ''Unsupported file type for /srv/pko/backend/data/uploads/report.docx'')
   \<and> \<not> is_BackendError ValueError"
  by (simp add: load_file_def raise_def sample_env_def detect_docx is_BackendError_def)

section \<open>Failures of the remote generation request\<close>

lemma check_refusing:
  "check_ollama_model_present refusing_env initial_world =
     (Inr (True, Some ''llama3.1:8b''), initial_world\<lparr>trace := [Requests_get, Requests_get]\<rparr>)"
  by (simp add: check_ollama_model_present_def check_ollama_running_def fetch_ollama_models_def
      io_defs refusing_env_def sample_env_def default_settings_def initial_world_def)

lemma check_slow:
  "check_ollama_model_present slow_env initial_world =
     (Inr (True, Some ''llama3.1:8b''), initial_world\<lparr>trace := [Requests_get, Requests_get]\<rparr>)"
  by (simp add: check_ollama_model_present_def check_ollama_running_def fetch_ollama_models_def
      io_defs slow_env_def sample_env_def default_settings_def initial_world_def)

text \<open>
  C3, as amended.  Once the availability check has passed, a generation request that times
  out raises \<open>OllamaRequestFailed\<close> with the message "Ollama request timed out", and a
  request that fails in any other way at the transport level raises \<open>OllamaUnavailable\<close>
  with the message "Ollama request failed:" followed by the cause: the two differ in kind
  as well as in message.
\<close>

theorem post_failure_kinds:
  assumes "check_ollama_model_present E w = (Inr (True, msg), w1)"
  shows "(requests_post E (length (trace w1)) (generate_url E)
            (generate_payload E ctx question history) = Raised_Timeout m \<longrightarrow>
          fst (OllamaClient_generate_answer E ctx question history w)
            = Inl (Exn OllamaRequestFailed ''Ollama request timed out''))
       \<and> (requests_post E (length (trace w1)) (generate_url E)
            (generate_payload E ctx question history) = Raised_other m \<longrightarrow>
          fst (OllamaClient_generate_answer E ctx question history w)
            = Inl (Exn OllamaUnavailable (''Ollama request failed: '' @ m)))"
  using assms
  by (simp add: OllamaClient_generate_answer_def io_bind_def ext_val_def raise_def Let_def)

theorem post_failure_kinds_witness:
  "fst (check_ollama_model_present refusing_env initial_world) = Inr (True, Some ''llama3.1:8b'')
   \<and> requests_post refusing_env 2 (generate_url refusing_env)
        (generate_payload refusing_env ''ctx'' ''q'' None) = Raised_other ''Connection refused''
   \<and> fst (OllamaClient_generate_answer refusing_env ''ctx'' ''q'' None initial_world)
       = Inl (Exn OllamaUnavailable ''Ollama request failed: Connection refused'')
   \<and> fst (check_ollama_model_present slow_env initial_world) = Inr (True, Some ''llama3.1:8b'')
   \<and> requests_post slow_env 2 (generate_url slow_env)
        (generate_payload slow_env ''ctx'' ''q'' None) = Raised_Timeout ''Read timed out''
   \<and> fst (OllamaClient_generate_answer slow_env ''ctx'' ''q'' None initial_world)
       = Inl (Exn OllamaRequestFailed ''Ollama request timed out'')"
  using post_failure_kinds [OF check_refusing, of "''ctx''" "''q''" None "''Connection refused''"]
        post_failure_kinds [OF check_slow, of "''ctx''" "''q''" None "''Read timed out''"]
  by (simp add: check_refusing check_slow)
     (simp add: refusing_env_def slow_env_def sample_env_def initial_world_def)

text \<open>
  The claim as stated fails: with the model server up and the model present, a refused
  connection raises \<open>OllamaUnavailable\<close> while a timeout raises \<open>OllamaRequestFailed\<close>.
\<close>

theorem post_failure_kinds_counterexample:
  "fst (OllamaClient_generate_answer slow_env ''ctx'' ''q'' None initial_world)
     = Inl (Exn OllamaRequestFailed ''Ollama request timed out'')
   \<and> fst (OllamaClient_generate_answer refusing_env ''ctx'' ''q'' None initial_world)
     = Inl (Exn OllamaUnavailable ''Ollama request failed: Connection refused'')
   \<and> OllamaUnavailable \<noteq> OllamaRequestFailed"
  by (simp add: OllamaClient_generate_answer_def check_ollama_model_present_def
      check_ollama_running_def fetch_ollama_models_def io_defs refusing_env_def slow_env_def
      sample_env_def default_settings_def initial_world_def Let_def)

section \<open>Similarity queries\<close>

lemma open_sample:
  "get_vector_store sample_env initial_world =
     (Inr (), \<lparr>EMBEDDER = False, CLIENT = True, COLLECTION = True, LLM_CLIENT = None,
               chroma_db = Some [],
               trace = [Mkdir_uploads, Mkdir_chroma_db, PersistentClient,
                        Get_or_create_collection]\<rparr>)"
  by (simp add: get_vector_store_def get_client_def ensure_directories_def io_defs
      sample_env_def initial_world_def)

text \<open>
  C8, as amended.  Once the store is open, \<open>query_similar\<close> hands \<open>top_k\<close> to the
  store's query unchanged, whatever its sign: it returns the store's result when the store
  returns one, and raises \<open>VectorDbError\<close> ("Vector DB error") when the store's query
  raises.  It yields an empty result for \<open>top_k \<le> 0\<close> only if the store does.
\<close>

theorem query_similar_forwards_top_k:
  assumes "get_vector_store E w = (Inr (), w1)"
  shows "query_similar E q n w =
           ((case collection_query E (length (trace w1)) (records w1) q n of
               Inl e \<Rightarrow> Inl (Exn VectorDbError ''Vector DB error'')
             | Inr r \<Rightarrow> Inr r),
            w1\<lparr>trace := trace w1 @ [Collection_query]\<rparr>)"
  using assms
  by (simp add: query_similar_def io_defs split: sum.splits)

theorem query_similar_forwards_top_k_witness:
  "fst (get_vector_store sample_env initial_world) = Inr ()
   \<and> fst (query_similar sample_env ''what?'' 0 initial_world) =
       Inl (Exn VectorDbError ''Vector DB error'')
   \<and> fst (query_similar sample_env ''what?'' 3 initial_world) =
       Inr \<lparr>documents = Some [[]], metadatas = Some [[]], distances = Some [[]]\<rparr>"
  using query_similar_forwards_top_k [OF open_sample, of "''what?''" 0]
        query_similar_forwards_top_k [OF open_sample, of "''what?''" 3]
  by (simp add: open_sample) (simp add: sample_env_def sample_query_def records_def)

text \<open>
  The claim as stated fails: against a store that rejects a non-positive number of
  results, a query with \<open>top_k = 0\<close> or \<open>top_k = -1\<close> raises instead of yielding no results.
\<close>

theorem query_similar_nonpositive_counterexample:
  "fst (query_similar sample_env ''what?'' 0 initial_world) =
     Inl (Exn VectorDbError ''Vector DB error'')
   \<and> fst (query_similar sample_env ''what?'' (- 1) initial_world) =
     Inl (Exn VectorDbError ''Vector DB error'')"
  by (simp add: query_similar_def get_vector_store_def get_client_def ensure_directories_def
      io_defs sample_env_def initial_world_def sample_query_def)

section \<open>Answering with nothing retrieved\<close>

lemma answer_sample:
  "query_similar sample_env ''what?'' (top_k (cfg sample_env)) initial_world =
     (Inr \<lparr>documents = Some [[]], metadatas = Some [[]], distances = Some [[]]\<rparr>,
      \<lparr>EMBEDDER = False, CLIENT = True, COLLECTION = True, LLM_CLIENT = None,
       chroma_db = Some [],
       trace = [Mkdir_uploads, Mkdir_chroma_db, PersistentClient, Get_or_create_collection,
                Collection_query]\<rparr>)"
  by (simp add: query_similar_def get_vector_store_def get_client_def ensure_directories_def
      io_defs sample_env_def initial_world_def sample_query_def default_settings_def records_def)

lemma format_empty:
  "fst (format_context_and_sources
          \<lparr>documents = Some [[]], metadatas = Some [[]], distances = Some [[]]\<rparr>) = []"
  by (simp add: format_context_and_sources_def rows_or_def)

text \<open>
  C2.  For every question and history: if retrieval returns and the context assembled from
  it is empty, \<open>answer_question\<close> returns exactly the fixed answer with an empty source
  list, in the state retrieval left, and the calls made since the start are none of the
  generation backends' (no HTTP request, no model loaded or run).
\<close>

theorem empty_context_short_circuit:
  assumes q: "query_similar E question (top_k (cfg E)) w = (Inr retrieval, w1)"
    and c: "fst (format_context_and_sources retrieval) = []"
  shows "answer_question E question history w =
           (Inr \<lparr>answer = ''The answer is not found in the provided documents.'',
                 sources = []\<rparr>, w1)
         \<and> LLM_CLIENT w1 = LLM_CLIENT w
         \<and> (\<exists>ts. trace w1 = trace w @ ts \<and> set ts \<inter> generation_calls = {})"
proof -
  from calls_within_query_similar [of E question "top_k (cfg E)"] q
  obtain ts where ts: "trace w1 = trace w @ ts" "set ts \<subseteq> store_calls"
    unfolding calls_within_def by (metis snd_conv)
  have d: "store_calls \<inter> generation_calls = {}"
    by (simp add: store_calls_def generation_calls_def)
  from ts d have t: "\<exists>ts. trace w1 = trace w @ ts \<and> set ts \<inter> generation_calls = {}"
    by blast
  obtain c_text srcs where f: "format_context_and_sources retrieval = (c_text, srcs)"
    by force
  with c have "str_strip c_text = []" by (simp add: str_strip_def)
  with q f have a: "answer_question E question history w =
           (Inr \<lparr>answer = ''The answer is not found in the provided documents.'',
                 sources = []\<rparr>, w1)"
    by (simp add: answer_question_def io_bind_def ret_def)
  have l: "LLM_CLIENT w1 = LLM_CLIENT w"
    using q
    by (auto simp: query_similar_def get_vector_store_def get_client_def ensure_directories_def
        io_defs split: if_splits sum.splits prod.splits option.splits)
  from a t l show ?thesis by simp
qed

theorem empty_context_short_circuit_witness:
  "fst (query_similar sample_env ''what?'' (top_k (cfg sample_env)) initial_world) =
     Inr \<lparr>documents = Some [[]], metadatas = Some [[]], distances = Some [[]]\<rparr>
   \<and> fst (format_context_and_sources
            \<lparr>documents = Some [[]], metadatas = Some [[]], distances = Some [[]]\<rparr>) = []
   \<and> fst (answer_question sample_env ''what?'' None initial_world) =
       Inr \<lparr>answer = ''The answer is not found in the provided documents.'', sources = []\<rparr>"
  using empty_context_short_circuit [OF answer_sample format_empty, of None]
  by (simp add: answer_sample format_empty)

section \<open>The chunker\<close>

lemma foldl_append_map_pair:
  "foldl (\<lambda>acc (i, t). acc @ [g i t]) a xs = a @ map (\<lambda>(i, t). g i t) xs"
  by (induction xs arbitrary: a) (auto split: prod.splits)

lemma chunk_loop:
  "foldl
     (\<lambda>chunks doc.
        let text = doc_text doc; base_meta = doc_metadata doc
        in if str_strip text = [] then chunks
           else foldl
                  (\<lambda>chunks (idx, chunk_text).
                     chunks @
                     [\<lparr>chunk_text = chunk_text,
                       chunk_metadata = AList.update ''chunk_index'' (MInt (int idx)) base_meta\<rparr>])
                  chunks (List.enumerate 0 (sp text)))
     acc docs = acc @ concat (map (split_doc sp) docs)"
  by (induction docs arbitrary: acc) (simp_all add: split_doc_def foldl_append_map_pair Let_def)

lemma chunk_documents_split:
  "chunk_documents E docs = concat (map (split_doc (text_splitter E)) docs)"
  unfolding chunk_documents_def get_text_splitter_def
  by (simp only: Let_def chunk_loop [unfolded Let_def] append_Nil)

lemma chunk_documents_Nil: "chunk_documents E [] = []"
  by (simp add: chunk_documents_split)

lemma map_enumerate_index:
  "map (\<lambda>x. f (fst x)) (List.enumerate n xs) = map f [n..<n + length xs]"
proof -
  have "map (\<lambda>x. f (fst x)) (List.enumerate n xs) = map f (map fst (List.enumerate n xs))"
    by (simp only: map_map comp_def)
  also have "\<dots> = map f [n..<n + length xs]"
    by (simp only: map_fst_enumerate)
  finally show ?thesis .
qed

lemma indices_split_doc:
  "indices (split_doc sp d) = map (\<lambda>i. Some (MInt (int i))) [0..<length (split_doc sp d)]"
  using map_enumerate_index [of "\<lambda>i. Some (MInt (int i))" 0 "sp (doc_text d)"]
  by (simp add: indices_def split_doc_def comp_def case_prod_beta update_conv')

lemma source_file_split_doc:
  "c \<in> set (split_doc sp d) \<Longrightarrow>
   map_of (chunk_metadata c) ''source_file'' = map_of (doc_metadata d) ''source_file''"
  by (auto simp: split_doc_def update_conv' split: if_splits)

lemma blank_split_doc: "str_strip (doc_text d) = [] \<Longrightarrow> split_doc sp d = []"
  by (simp add: split_doc_def)

lemma load_file_returns:
  "load_file E p w = (Inr docs, w') \<Longrightarrow> detect_file_type (resolve E p) \<noteq> None"
  by (auto simp: load_file_def raise_def Let_def split: option.splits)

lemma load_file_source:
  assumes "load_file E p w = (Inr docs, w')" and "d \<in> set docs"
  shows "map_of (doc_metadata d) ''source_file'' = Some (MStr (resolve E p)) \<and> resolve E p \<noteq> []"
proof -
  from assms(1) have t: "detect_file_type (resolve E p) \<noteq> None"
    by (rule load_file_returns)
  have ne: "resolve E p \<noteq> []"
  proof
    assume "resolve E p = []"
    with t show False
      by (simp add: detect_file_type_def path_suffix_def path_name_def str_rstrip_def str_lower_def)
  qed
  from assms have "map_of (doc_metadata d) ''source_file'' = Some (MStr (resolve E p))"
    by (auto simp: load_file_def raise_def ret_def io_bind_def Let_def
        split: option.splits sum.splits prod.splits if_splits)
  with ne show ?thesis by simp
qed

text \<open>
  C5.  The chunks of a document list are the chunks of its documents, one document after
  the other; within each document the chunk indices are 0, 1, 2, ... in order; a document
  whose text is only whitespace has no chunks; every chunk carries its document's source
  file; and when the list is what the normalizer returned for a path, that source file is
  the resolved path, which is not empty.
\<close>

theorem chunk_invariants:
  "chunk_documents E docs = concat (map (\<lambda>d. chunk_documents E [d]) docs)
   \<and> (\<forall>d\<in>set docs.
         indices (chunk_documents E [d]) =
           map (\<lambda>i. Some (MInt (int i))) [0..<length (chunk_documents E [d])]
       \<and> (str_strip (doc_text d) = [] \<longrightarrow> chunk_documents E [d] = [])
       \<and> (\<forall>c\<in>set (chunk_documents E [d]).
             map_of (chunk_metadata c) ''source_file'' = map_of (doc_metadata d) ''source_file''))
   \<and> (load_file E p w = (Inr docs, w') \<longrightarrow>
        (\<forall>c\<in>set (chunk_documents E docs).
           map_of (chunk_metadata c) ''source_file'' = Some (MStr (resolve E p))
         \<and> resolve E p \<noteq> []))"
proof -
  let ?sp = "text_splitter E"
  have one: "chunk_documents E [d] = split_doc ?sp d" for d
    by (simp add: chunk_documents_split)
  have l: "load_file E p w = (Inr docs, w') \<longrightarrow>
            (\<forall>c\<in>set (chunk_documents E docs).
               map_of (chunk_metadata c) ''source_file'' = Some (MStr (resolve E p))
             \<and> resolve E p \<noteq> [])"
  proof (intro impI ballI)
    fix ch assume lf: "load_file E p w = (Inr docs, w')" and "ch \<in> set (chunk_documents E docs)"
    then obtain d where d: "d \<in> set docs" "ch \<in> set (split_doc ?sp d)"
      by (auto simp: chunk_documents_split)
    from load_file_source [OF lf d(1)] source_file_split_doc [OF d(2)]
    show "map_of (chunk_metadata ch) ''source_file'' = Some (MStr (resolve E p))
             \<and> resolve E p \<noteq> []" by simp
  qed
  have c: "chunk_documents E docs = concat (map (\<lambda>d. chunk_documents E [d]) docs)"
    by (simp add: one) (rule chunk_documents_split)
  from c l show ?thesis
    by (simp add: one indices_split_doc blank_split_doc source_file_split_doc)
qed

section \<open>A file with no text\<close>

lemma pipeline_no_docs:
  assumes "ingest_pipeline E up w = (Inr ([], added), w')"
  shows "added = 0 \<and>
         detect_file_type (resolve E (path_join (uploads_path (cfg E))
                                        (basename (str_or (up_filename up) ''unknown'')))) \<noteq> None"
proof -
  let ?path = "path_join (uploads_path (cfg E)) (basename (str_or (up_filename up) ''unknown''))"
  from assms obtain w2 w3 where
    l: "load_file E ?path w2 = (Inr [], w3)" and
    r: "add_documents E (chunk_documents E []) w3 = (Inr added, w')"
    by (auto simp: ingest_pipeline_def Let_def io_bind_def ret_def split: sum.splits prod.splits)
  from r have "added = 0"
    by (simp add: chunk_documents_Nil add_documents_def ret_def)
  with load_file_returns [OF l] show ?thesis by simp
qed

text \<open>
  C10.  When a file's pipeline raises nothing and the normalizer returned no document, the
  file's record has no file type, no chunks and no error, although the extension is a
  recognized one: the type is not derived again from the file name.
\<close>

theorem empty_extraction_result:
  assumes "ingest_pipeline E up w = (Inr ([], added), w')"
  shows "ingest_file E up (rs, n) w =
           (Inr (rs @ [\<lparr>res_filename = basename (str_or (up_filename up) ''unknown''),
                        res_file_type = None, chunks_added = 0, error = None\<rparr>], n), w')
         \<and> detect_file_type (resolve E (path_join (uploads_path (cfg E))
                                        (basename (str_or (up_filename up) ''unknown'')))) \<noteq> None"
  using assms pipeline_no_docs [OF assms]
  by (simp add: ingest_file_def catch_def io_bind_def ret_def first_file_type_def Let_def)

lemma blank_pipeline:
  "ingest_pipeline blank_env notes_upload initial_world =
     (Inr ([], 0), initial_world\<lparr>trace := [Upload_read, Write_bytes, Read_text]\<rparr>)"
  by (simp add: ingest_pipeline_def load_file_def read_text_file_def chunk_documents_Nil
      add_documents_def io_defs blank_env_def sample_env_def
      notes_upload_def initial_world_def default_settings_def Let_def
      basename_def path_join_def str_or_def detect_file_type_def path_suffix_def path_name_def
      str_rstrip_def str_lower_def lower_char_def str_strip_def isspace_def whitespace_def)

theorem empty_extraction_result_witness:
  "fst (ingest_pipeline blank_env notes_upload initial_world) = Inr ([], 0)
   \<and> fst (ingest_file blank_env notes_upload ([], 0) initial_world) =
       Inr ([\<lparr>res_filename = ''notes.txt'', res_file_type = None, chunks_added = 0,
               error = None\<rparr>], 0)
   \<and> detect_file_type ''notes.txt'' = Some ''txt''"
  using empty_extraction_result [OF blank_pipeline, of "[]" 0]
  by (simp add: blank_pipeline)
     (simp add: notes_upload_def basename_def str_or_def detect_file_type_def path_suffix_def
        path_name_def str_rstrip_def str_lower_def lower_char_def)


section \<open>The ingestion loop\<close>

lemma ingest_file_result:
  assumes "ingest_pipeline E up w = (r, w1)"
  shows "ingest_file E up (rs, t) w =
           (Inr (rs @ [file_result up r], t + chunks_added (file_result up r)), w1)"
  using assms
  by (cases r) (auto simp: ingest_file_def file_result_def catch_def io_bind_def ret_def Let_def)

lemma length_run_pipelines: "length (fst (run_pipelines E files w)) = length files"
  by (induction files arbitrary: w) (simp_all add: Let_def case_prod_beta)

lemma ingest_loop_results:
  "ingest_loop E files (rs, t) w =
     (Inr (rs @ file_results E files w, t + sum_list (map chunks_added (file_results E files w))),
      snd (run_pipelines E files w))"
proof (induction files arbitrary: rs t w)
  case Nil
  then show ?case by (simp add: ret_def file_results_def)
next
  case (Cons up ups)
  obtain r w1 where p: "ingest_pipeline E up w = (r, w1)" by force
  from ingest_file_result [OF p]
  have f: "ingest_file E up (rs, t) w =
           (Inr (rs @ [file_result up r], t + chunks_added (file_result up r)), w1)" .
  have fr: "file_results E (up # ups) w = file_result up r # file_results E ups w1"
    using p by (simp add: file_results_def Let_def split: prod.splits)
  have sn: "snd (run_pipelines E (up # ups) w) = snd (run_pipelines E ups w1)"
    using p by (simp add: Let_def split: prod.splits)
  show ?case
    by (simp add: io_bind_def f Cons.IH fr sn del: run_pipelines.simps)
qed

lemma failure_adds_nothing: "error (file_result up r) \<noteq> None \<Longrightarrow> chunks_added (file_result up r) = 0"
  by (cases r) (auto simp: file_result_def Let_def)

lemma sum_successes:
  "sum_list (map chunks_added (map (\<lambda>(up, r). file_result up r) ps)) =
   sum_list (map chunks_added (filter (\<lambda>r. error r = None) (map (\<lambda>(up, r). file_result up r) ps)))"
  by (induction ps) (auto simp: failure_adds_nothing)

text \<open>
  C1, as amended.  For every non-empty batch of N uploaded files \<open>ingest\<close> returns: the
  result list has length N and keeps the input order; each file's pipeline runs in the
  state the previous file left, whether that file failed or not; a file whose pipeline
  raises is recorded with no chunks and the error message of its \<open>except\<close> clause, a file
  whose pipeline returns with the chunks it added and no error; and \<open>total_chunks\<close> is the
  sum of the chunks added over the files that succeeded.
\<close>

theorem ingest_isolates_failures:
  assumes "files \<noteq> []"
  shows "\<exists>resp. ingest E files w = (Inr resp, snd (run_pipelines E files w))
     \<and> results resp = file_results E files w
     \<and> length (results resp) = length files
     \<and> map res_filename (results resp) =
         map (\<lambda>up. basename (str_or (up_filename up) ''unknown'')) files
     \<and> (\<forall>i < length files.
           case fst (run_pipelines E files w) ! i of
             Inl exc \<Rightarrow> chunks_added (results resp ! i) = 0
                        \<and> error (results resp ! i) = Some (error_message exc)
           | Inr (docs, added) \<Rightarrow> chunks_added (results resp ! i) = added
                        \<and> error (results resp ! i) = None)
     \<and> total_chunks resp =
         sum_list (map chunks_added (filter (\<lambda>r. error r = None) (results resp)))"
proof -
  let ?rs = "file_results E files w"
  define resp where "resp = \<lparr>results = ?rs, total_chunks = sum_list (map chunks_added ?rs)\<rparr>"
  have r: "results resp = ?rs" and t: "total_chunks resp = sum_list (map chunks_added ?rs)"
    by (simp_all add: resp_def)
  have i: "ingest E files w = (Inr resp, snd (run_pipelines E files w))"
    using assms ingest_loop_results [of E files "[]" 0 w]
    by (simp add: ingest_def io_bind_def ret_def resp_def)
  have len: "length (results resp) = length files"
    unfolding r by (simp add: file_results_def length_run_pipelines)
  have names: "map res_filename (results resp) =
                 map (\<lambda>up. basename (str_or (up_filename up) ''unknown'')) files"
    unfolding r
  proof (rule nth_equalityI)
    show "length (map res_filename ?rs) =
            length (map (\<lambda>up. basename (str_or (up_filename up) ''unknown'')) files)"
      by (simp add: file_results_def length_run_pipelines)
  next
    fix i assume "i < length (map res_filename ?rs)"
    then have "i < length files" by (simp add: file_results_def length_run_pipelines)
    then show "map res_filename ?rs ! i =
                 map (\<lambda>up. basename (str_or (up_filename up) ''unknown'')) files ! i"
      by (cases "fst (run_pipelines E files w) ! i")
         (auto simp: file_results_def length_run_pipelines file_result_def Let_def)
  qed
  have each: "\<forall>i < length files.
           case fst (run_pipelines E files w) ! i of
             Inl exc \<Rightarrow> chunks_added (results resp ! i) = 0
                        \<and> error (results resp ! i) = Some (error_message exc)
           | Inr (docs, added) \<Rightarrow> chunks_added (results resp ! i) = added
                        \<and> error (results resp ! i) = None"
    unfolding r
    by (auto simp: file_results_def length_run_pipelines file_result_def Let_def split: sum.splits)
  have tot: "total_chunks resp =
         sum_list (map chunks_added (filter (\<lambda>r. error r = None) (results resp)))"
    unfolding r t file_results_def by (rule sum_successes)
  from i r len names each tot show ?thesis by blast
qed

section \<open>The sample batch, evaluated\<close>

lemma detect_notes: "detect_file_type notes_path = Some ''txt''"
  by (simp add: notes_path_def detect_file_type_def path_suffix_def path_name_def str_rstrip_def
      str_lower_def lower_char_def)

lemma strip_alpha: "str_strip ''Alpha beta'' = ''Alpha beta''"
  by (simp add: str_strip_def isspace_def whitespace_def)

lemma load_notes:
  "load_file sample_env notes_path initial_world =
     (Inr [notes_doc], initial_world\<lparr>trace := [Read_text]\<rparr>)"
  by (simp add: load_file_def read_text_file_def io_defs sample_env_def detect_notes strip_alpha
      notes_doc_def initial_world_def Let_def)

lemma chunks_notes:
  "chunk_documents sample_env [notes_doc] =
     [\<lparr>chunk_text = ''Alpha '',
       chunk_metadata = [(''source_file'', MStr notes_path), (''file_type'', MStr ''txt''),
                         (''chunk_index'', MInt 0)]\<rparr>,
      \<lparr>chunk_text = ''beta'',
       chunk_metadata = [(''source_file'', MStr notes_path), (''file_type'', MStr ''txt''),
                         (''chunk_index'', MInt 1)]\<rparr>]"
  by (simp add: chunk_documents_def get_text_splitter_def sample_env_def notes_doc_def strip_alpha
      enumerate_eq_zip Let_def upt_rec)

lemma alpha_pipeline:
  "ingest_pipeline sample_env alpha_upload initial_world = (Inr ([notes_doc], 2), alpha_world)"
  by code_simp

lemma report_pipeline:
  "ingest_pipeline sample_env report_upload alpha_world =
     (Inl (Exn ValueError ''Unsupported file type for /srv/pko/backend/data/uploads/report.docx''),
      alpha_world\<lparr>trace := trace alpha_world @ [Upload_read, Write_bytes]\<rparr>)"
  by code_simp


theorem chunk_invariants_witness:
  "load_file sample_env notes_path initial_world =
     (Inr [notes_doc], initial_world\<lparr>trace := [Read_text]\<rparr>)
   \<and> indices (chunk_documents sample_env [notes_doc]) = [Some (MInt 0), Some (MInt 1)]
   \<and> map (\<lambda>c. map_of (chunk_metadata c) ''source_file'') (chunk_documents sample_env [notes_doc])
       = [Some (MStr notes_path), Some (MStr notes_path)]
   \<and> notes_path \<noteq> []
   \<and> str_strip (doc_text blank_doc) = []
   \<and> chunk_documents sample_env [blank_doc] = []
   \<and> chunk_documents sample_env [blank_doc, notes_doc] = chunk_documents sample_env [notes_doc]"
proof -
  have b: "str_strip (doc_text blank_doc) = []"
    by (simp add: blank_doc_def str_strip_def isspace_def whitespace_def)
  have n: "notes_path \<noteq> []"
    by (simp add: notes_path_def)
  have bl: "chunk_documents sample_env [blank_doc] = []"
    using chunk_invariants [of sample_env "[blank_doc]" notes_path initial_world initial_world] b
    by simp
  have cat: "chunk_documents sample_env [blank_doc, notes_doc] = chunk_documents sample_env [notes_doc]"
    using chunk_invariants [of sample_env "[blank_doc, notes_doc]" notes_path initial_world
        initial_world] bl
    by simp
  have i: "indices (chunk_documents sample_env [notes_doc]) = [Some (MInt 0), Some (MInt 1)]"
    by (simp add: chunks_notes indices_def)
  have s: "map (\<lambda>c. map_of (chunk_metadata c) ''source_file'') (chunk_documents sample_env [notes_doc])
       = [Some (MStr notes_path), Some (MStr notes_path)]"
    by (simp add: chunks_notes)
  from load_notes i s n b bl cat show ?thesis by simp
qed

text \<open>
  The claim C1 as stated fails on the empty batch, which \<open>ingest\<close> rejects with the HTTP
  error 400 instead of returning an empty result list.
\<close>

theorem ingest_empty_batch_counterexample:
  "fst (ingest sample_env [] initial_world) = Inl (Exn (HTTPException 400) ''No files uploaded.'')"
  by (simp add: ingest_def raise_def)

theorem ingest_isolates_failures_witness:
  "[alpha_upload, report_upload] \<noteq> []
   \<and> fst (ingest sample_env [alpha_upload, report_upload] initial_world) =
       Inr \<lparr>results =
              [\<lparr>res_filename = ''notes.txt'', res_file_type = Some ''txt'', chunks_added = 2,
                error = None\<rparr>,
               \<lparr>res_filename = ''report.docx'', res_file_type = None, chunks_added = 0,
                error = Some ''Unsupported file type for /srv/pko/backend/data/uploads/report.docx''\<rparr>],
            total_chunks = 2\<rparr>"
proof -
  have ne: "[alpha_upload, report_upload] \<noteq> []" by simp
  from ingest_isolates_failures [OF ne, of sample_env initial_world] obtain resp where
    i: "ingest sample_env [alpha_upload, report_upload] initial_world =
          (Inr resp, snd (run_pipelines sample_env [alpha_upload, report_upload] initial_world))"
    and r: "results resp = file_results sample_env [alpha_upload, report_upload] initial_world"
    and t: "total_chunks resp =
              sum_list (map chunks_added (filter (\<lambda>r. error r = None) (results resp)))"
    by blast
  have fr: "file_results sample_env [alpha_upload, report_upload] initial_world =
              [\<lparr>res_filename = ''notes.txt'', res_file_type = Some ''txt'', chunks_added = 2,
                error = None\<rparr>,
               \<lparr>res_filename = ''report.docx'', res_file_type = None, chunks_added = 0,
                error = Some ''Unsupported file type for /srv/pko/backend/data/uploads/report.docx''\<rparr>]"
    by code_simp
  from r t fr have "resp = \<lparr>results =
              [\<lparr>res_filename = ''notes.txt'', res_file_type = Some ''txt'', chunks_added = 2,
                error = None\<rparr>,
               \<lparr>res_filename = ''report.docx'', res_file_type = None, chunks_added = 0,
                error = Some ''Unsupported file type for /srv/pko/backend/data/uploads/report.docx''\<rparr>],
            total_chunks = 2\<rparr>"
    by (cases resp) simp
  with i ne show ?thesis by simp
qed

section \<open>Clearing the store\<close>

lemma clear_invalidates:
  "\<not> CLIENT (snd (clear_vector_store E w)) \<and> \<not> COLLECTION (snd (clear_vector_store E w))"
  by (auto simp: clear_vector_store_def ensure_directories_def io_defs
      split: sum.splits prod.splits option.splits if_splits)

lemma clear_completes:
  assumes "clear_vector_store E w = (Inr (), w1)"
  shows "chroma_db w1 = Some []"
  using assms
  by (auto simp: clear_vector_store_def ensure_directories_def io_defs
      split: sum.splits prod.splits option.splits if_splits)

lemma reopen:
  assumes "\<not> CLIENT w1" "\<not> COLLECTION w1" "get_vector_store E' w1 = (Inr (), w2)"
  shows "trace w2 = trace w1 @ opening_calls
         \<and> chroma_db w2 = (case chroma_db w1 of None \<Rightarrow> Some [] | Some r \<Rightarrow> Some r)"
  using assms
  by (auto simp: get_vector_store_def get_client_def ensure_directories_def io_defs
      opening_calls_def split: sum.splits prod.splits option.splits if_splits)

lemma count_after_open:
  assumes "get_vector_store E' w1 = (Inr (), w2)" "chroma_db w2 = Some []"
  shows "fst (count_chunks E' w1) = Inr 0 \<and> fst (list_indexed_files E' w1) = Inr []"
  using assms
  by (auto simp: count_chunks_def list_indexed_files_def io_defs records_def
      split: sum.splits prod.splits option.splits if_splits)

lemma clear_absent:
  assumes "chroma_db w = None" "fault E Mkdir_uploads (length (trace w)) = None"
    "fault E Mkdir_chroma_db (Suc (length (trace w))) = None"
  shows "fst (clear_vector_store E w) = Inr ()"
  using assms
  by (simp add: clear_vector_store_def ensure_directories_def io_defs)

text \<open>
  C7.  For any prior state: once \<open>clear_vector_store\<close> has completed, the persisted store
  is empty, and whenever the store then opens, \<open>count_chunks\<close> returns 0 and
  \<open>list_indexed_files\<close> returns the empty list, the store being opened anew (directories,
  client, collection) on the way.  The cached client and collection handles are dropped by
  every call of \<open>clear_vector_store\<close>, also one that fails.  When the storage location does
  not exist and the directories can be created, \<open>clear_vector_store\<close> succeeds.
\<close>

theorem clear_then_empty:
  "(clear_vector_store E w = (Inr (), w1) \<longrightarrow>
      chroma_db w1 = Some []
      \<and> (get_vector_store E' w1 = (Inr (), w2) \<longrightarrow>
            fst (count_chunks E' w1) = Inr 0
          \<and> fst (list_indexed_files E' w1) = Inr []
          \<and> trace w2 = trace w1 @ opening_calls))
   \<and> \<not> CLIENT (snd (clear_vector_store E w))
   \<and> \<not> COLLECTION (snd (clear_vector_store E w))
   \<and> (chroma_db w = None \<and> fault E Mkdir_uploads (length (trace w)) = None
        \<and> fault E Mkdir_chroma_db (Suc (length (trace w))) = None \<longrightarrow>
      fst (clear_vector_store E w) = Inr ())"
proof -
  have a: "chroma_db w1 = Some []
      \<and> (get_vector_store E' w1 = (Inr (), w2) \<longrightarrow>
            fst (count_chunks E' w1) = Inr 0
          \<and> fst (list_indexed_files E' w1) = Inr []
          \<and> trace w2 = trace w1 @ opening_calls)"
    if c: "clear_vector_store E w = (Inr (), w1)"
  proof -
    from clear_completes [OF c] have db: "chroma_db w1 = Some []" .
    from clear_invalidates [of E w] c have h: "\<not> CLIENT w1" "\<not> COLLECTION w1" by simp_all
    have "fst (count_chunks E' w1) = Inr 0 \<and> fst (list_indexed_files E' w1) = Inr []
          \<and> trace w2 = trace w1 @ opening_calls"
      if g: "get_vector_store E' w1 = (Inr (), w2)"
    proof -
      from reopen [OF h g] db have "trace w2 = trace w1 @ opening_calls" "chroma_db w2 = Some []"
        by simp_all
      with count_after_open [OF g] show ?thesis by simp
    qed
    with db show ?thesis by simp
  qed
  from a clear_invalidates [of E w] clear_absent [of w E] show ?thesis by blast
qed

lemma clear_alpha: "clear_vector_store sample_env alpha_world = (Inr (), cleared_world)"
  by code_simp

lemma open_cleared:
  "get_vector_store sample_env cleared_world =
     (Inr (), cleared_world\<lparr>CLIENT := True, COLLECTION := True,
                             trace := trace cleared_world @ opening_calls\<rparr>)"
  by code_simp

theorem clear_then_empty_witness:
  "clear_vector_store sample_env alpha_world = (Inr (), cleared_world)
   \<and> fst (count_chunks sample_env alpha_world) = Inr 2
   \<and> fst (get_vector_store sample_env cleared_world) = Inr ()
   \<and> fst (count_chunks sample_env cleared_world) = Inr 0
   \<and> fst (list_indexed_files sample_env cleared_world) = Inr []
   \<and> chroma_db initial_world = None
   \<and> fst (clear_vector_store sample_env initial_world) = Inr ()"
proof -
  have c2: "fst (count_chunks sample_env alpha_world) = Inr 2" by code_simp
  have n: "chroma_db initial_world = None" by (simp add: initial_world_def)
  have f: "fault sample_env Mkdir_uploads (length (trace initial_world)) = None"
    "fault sample_env Mkdir_chroma_db (Suc (length (trace initial_world))) = None"
    by (simp_all add: sample_env_def)
  from clear_then_empty [of sample_env alpha_world cleared_world sample_env
      "cleared_world\<lparr>CLIENT := True, COLLECTION := True,
                      trace := trace cleared_world @ opening_calls\<rparr>"]
    clear_then_empty [of sample_env initial_world cleared_world sample_env cleared_world]
  show ?thesis
    using clear_alpha open_cleared c2 n f by simp
qed

end
